theory Spec2Isabelle
  imports Complex_Main "HOL-Library.Sublist"
begin

unbundle bit_operations_syntax

section \<open>Errors\<close>

text \<open>
  Every method of \<open>Session\<close> returns a Go \<open>error\<close> that is \<open>nil\<close> on success. An error
  value is modelled by the kind the specification gives it; \<open>nil\<close> is \<open>None\<close>.
  \<open>ErrNoSuchElement\<close> is the package variable of session.go. \<open>URLError\<close> is the error
  of \<open>url.Parse\<close> (net/url), which no operation returns: session.go discards it.
\<close>

datatype error =
    TransportError string
  | ServerError string
  | DecodeError string
  | ErrNoSuchElement
  | IOError string
  | URLError string

section \<open>The response envelope and the transport\<close>

text \<open>
  The type \<open>wdaResponse\<close>, its methods and the accessors of its value payload are
  declared outside session.go, as are \<open>wdaBody\<close> and its setters. The specification
  describes the envelope as a value payload with an optional embedded error message.
\<close>

text \<open>
  Modelled from the spec: the value payload of a response, whose type is not in
  session.go. A payload is its raw JSON text together with what its accessors answer:
  \<open>String()\<close>, \<open>Int()\<close>, its integer reading, \<open>Array()\<close>, its items when it is read as an
  array, and its members, which \<open>Get\<close> looks up. What \<open>String()\<close> answers is not always
  the raw JSON text. session.go hands the \<open>String()\<close> of an object payload to
  \<open>json.Unmarshal\<close>, which expects the raw text of the object; it joins the \<open>String()\<close>
  of the member \<open>ELEMENT\<close>, a JSON string, into a URL, which takes the content of the
  string without its quotes.
\<close>

datatype wdaValue =
  WdaValue (value_Raw: string) (value_String: string) (value_Int: int)
           (value_Array: "wdaValue list") (value_members: "(string \<times> wdaValue) list")

text \<open>
  Modelled from the spec: the payload that \<open>Get\<close> answers for a member that does not
  exist; it is not in session.go. It has no raw text, and \<open>String()\<close> answers the empty
  string, as \<open>FindElement\<close> expects when it compares the \<open>String()\<close> of a missing
  \<open>ELEMENT\<close> with \<open>""\<close>.
\<close>

definition absent_value :: wdaValue where
  "absent_value = WdaValue [] [] 0 [] []"

text \<open>
  Modelled from the spec: the accessor \<open>Get\<close> of a payload, which is not in session.go:
  the member of that name, or the absent payload.
\<close>

definition value_Get :: "string \<Rightarrow> wdaValue \<Rightarrow> wdaValue" where
  "value_Get key v = (case map_of (value_members v) key of Some m \<Rightarrow> m | None \<Rightarrow> absent_value)"

text \<open>
  Modelled from the spec: the response envelope \<open>wdaResponse\<close>, which is not in
  session.go: the value payload and the embedded error message, empty when the server
  reported none.
\<close>

record wdaResponse =
  respValue :: wdaValue
  respErrMsg :: string

text \<open>
  Modelled from the spec: the method \<open>getValue\<close> of \<open>wdaResponse\<close>, which is not in
  session.go: the value payload of the envelope.
\<close>

definition getValue :: "wdaResponse \<Rightarrow> wdaValue" where
  "getValue wdaResp = respValue wdaResp"

text \<open>
  Modelled from the spec: the method \<open>getErrMsg\<close> of \<open>wdaResponse\<close>, which is not in
  session.go: \<open>nil\<close> when the envelope carries no error message, and otherwise the
  server's failure, the \<open>ServerError\<close> of the specification.
\<close>

definition getErrMsg :: "wdaResponse \<Rightarrow> error option" where
  "getErrMsg wdaResp = (if respErrMsg wdaResp = [] then None else Some (ServerError (respErrMsg wdaResp)))"

text \<open>
  Values of type \<open>float32\<close> and \<open>float64\<close> are only carried, never computed with, and
  are represented by the rational they denote.
\<close>

type_synonym float32 = rat

text \<open>
  Modelled from the spec: the values a request body holds; the type \<open>wdaBody\<close> is not in
  session.go. These are the kinds of value that session.go stores.
\<close>

datatype bodyValue =
    BoolValue bool
  | IntValue int
  | FloatValue rat
  | StringValue string
  | StringsValue "string list"
  | EnvValue "(string \<times> string) list"

text \<open>
  Modelled from the spec: \<open>wdaBody\<close>, which is not in session.go.
  \<open>make(WDAAppLaunchOption)\<close> shows that it is a Go map, and the specification calls
  it a mapping from field names to values.
\<close>

type_synonym wdaBody = "string \<rightharpoonup> bodyValue"

text \<open>Modelled from the spec: \<open>newWdaBody\<close>, which is not in session.go: the empty body.\<close>

definition newWdaBody :: wdaBody where
  "newWdaBody = Map.empty"

text \<open>
  Modelled from the spec: the method \<open>set\<close> of \<open>wdaBody\<close>, which is not in session.go:
  it stores one field and returns the body.
\<close>

definition set_field :: "string \<Rightarrow> bodyValue \<Rightarrow> wdaBody \<Rightarrow> wdaBody" where
  "set_field k v body = body(k \<mapsto> v)"

text \<open>
  Modelled from the spec: the method \<open>setBundleID\<close> of \<open>wdaBody\<close>, which is not in
  session.go: the field \<open>bundleId\<close> of the bodies \<open>{bundleId}\<close> of the specification.
\<close>

definition setBundleID :: "string \<Rightarrow> wdaBody \<Rightarrow> wdaBody" where
  "setBundleID bundleId body = set_field ''bundleId'' (StringValue bundleId) body"

text \<open>
  Modelled from the spec: the method \<open>setXY\<close> of \<open>wdaBody\<close>, which is not in session.go:
  the fields \<open>x\<close> and \<open>y\<close> of the gesture bodies \<open>{x, y[, duration]}\<close>.
\<close>

definition setXY :: "int \<Rightarrow> int \<Rightarrow> wdaBody \<Rightarrow> wdaBody" where
  "setXY x y body = set_field ''y'' (IntValue y) (set_field ''x'' (IntValue x) body)"

text \<open>
  The transport functions \<open>internalGet\<close> and \<open>internalPost\<close> are parameters of every
  operation: they take the action name, the URL and (for a POST) the body, and answer
  with an error or with the response envelope.
\<close>

type_synonym internalGet = "string \<Rightarrow> string \<Rightarrow> error + wdaResponse"
type_synonym internalPost = "string \<Rightarrow> string \<Rightarrow> wdaBody \<Rightarrow> error + wdaResponse"

section \<open>Sessions and URLs\<close>

text \<open>
  A session holds its base URL. A URL is represented by its text.
\<close>

type_synonym URL = string

record Session =
  sessionURL :: URL

text \<open>
  Modelled from the spec: \<open>urlJoin\<close>, which is not in session.go. The specification has
  every operation derive a sub-path of the session's base URL, and its endpoint table
  gives \<open>/session/<id>/wda/apps/launch\<close> for \<open>urlJoin(s.sessionURL,
  "/wda/apps/launch")\<close>, \<open>/session/<id>/wda/tap/0\<close> for \<open>urlJoin(s.sessionURL, "wda",
  "tap", "0")\<close> and \<open>/session/<id>\<close> for \<open>urlJoin(s.sessionURL, "")\<close>: every path
  element that is not empty is appended after one slash.
\<close>

definition urlJoin :: "URL \<Rightarrow> string list \<Rightarrow> string" where
  "urlJoin base elem =
     base @ concat (map (\<lambda>e. CHR ''/'' # dropWhile (\<lambda>c. c = CHR ''/'') e)
                        (filter (\<lambda>e. e \<noteq> []) elem))"

section \<open>Application state\<close>

type_synonym WDAAppRunState = int

definition WDAAppNotRunning :: WDAAppRunState where
  "WDAAppNotRunning = push_bit 0 1"

definition WDAAppRunningBack :: WDAAppRunState where
  "WDAAppRunningBack = push_bit 1 1"

definition WDAAppRunningFront :: WDAAppRunState where
  "WDAAppRunningFront = push_bit 2 1"

definition WDAAppRunState_String :: "WDAAppRunState \<Rightarrow> string" where
  "WDAAppRunState_String v =
     (if v = WDAAppNotRunning then ''Not Running''
      else if v = WDAAppRunningBack then ''Running (Back)''
      else if v = WDAAppRunningFront then ''Running (Front)''
      else ''UNKNOWN'')"

definition AppState :: "internalPost \<Rightarrow> Session \<Rightarrow> string \<Rightarrow> WDAAppRunState \<times> error option" where
  "AppState internalPost s bundleId =
     (let body = setBundleID bundleId newWdaBody in
      case internalPost ''AppState'' (urlJoin (sessionURL s) [''/wda/apps/state'']) body of
        Inl err \<Rightarrow> (- 1, Some err)
      | Inr wdaResp \<Rightarrow> (value_Int (getValue wdaResp), None))"

section \<open>Gestures, buttons and application lifecycle\<close>

text \<open>
  \<open>Tap\<close> looks at the envelope after a successful transport call and returns its
  embedded error; the other operations of this section assign the envelope to the blank
  identifier and return only the transport's error.
\<close>

definition Tap :: "internalPost \<Rightarrow> Session \<Rightarrow> int \<Rightarrow> int \<Rightarrow> error option" where
  "Tap internalPost s x y =
     (let body = setXY x y newWdaBody in
      case internalPost ''Tap'' (urlJoin (sessionURL s) [''wda'', ''tap'', ''0'']) body of
        Inl err \<Rightarrow> Some err
      | Inr wdaResp \<Rightarrow> getErrMsg wdaResp)"

definition DoubleTap :: "internalPost \<Rightarrow> Session \<Rightarrow> int \<Rightarrow> int \<Rightarrow> error option" where
  "DoubleTap internalPost s x y =
     (let body = setXY x y newWdaBody in
      case internalPost ''DoubleTap'' (urlJoin (sessionURL s) [''wda'', ''doubleTap'']) body of
        Inl err \<Rightarrow> Some err
      | Inr _ \<Rightarrow> None)"

definition TouchAndHold :: "internalPost \<Rightarrow> Session \<Rightarrow> int \<Rightarrow> int \<Rightarrow> float32 list \<Rightarrow> error option" where
  "TouchAndHold internalPost s x y duration =
     (let body = setXY x y newWdaBody;
          body = (if length duration = 0 then set_field ''duration'' (FloatValue 1) body
                  else set_field ''duration'' (FloatValue (hd duration)) body) in
      case internalPost ''TouchAndHold'' (urlJoin (sessionURL s) [''wda'', ''touchAndHold'']) body of
        Inl err \<Rightarrow> Some err
      | Inr _ \<Rightarrow> None)"

definition AppTerminate :: "internalPost \<Rightarrow> Session \<Rightarrow> string \<Rightarrow> error option" where
  "AppTerminate internalPost s bundleId =
     (let body = setBundleID bundleId newWdaBody in
      case internalPost ''AppTerminate'' (urlJoin (sessionURL s) [''/wda/apps/terminate'']) body of
        Inl err \<Rightarrow> Some err
      | Inr _ \<Rightarrow> None)"

type_synonym WDADeviceButtonName = string

definition WDADeviceButtonHome :: WDADeviceButtonName where
  "WDADeviceButtonHome = ''home''"

definition WDADeviceButtonVolumeUp :: WDADeviceButtonName where
  "WDADeviceButtonVolumeUp = ''volumeUp''"

definition WDADeviceButtonVolumeDown :: WDADeviceButtonName where
  "WDADeviceButtonVolumeDown = ''volumeDown''"

definition PressButton :: "internalPost \<Rightarrow> Session \<Rightarrow> WDADeviceButtonName \<Rightarrow> error option" where
  "PressButton internalPost s wdaDeviceButton =
     (let body = set_field ''name'' (StringValue wdaDeviceButton) newWdaBody in
      case internalPost ''PressButton'' (urlJoin (sessionURL s) [''/wda/pressButton'']) body of
        Inl err \<Rightarrow> Some err
      | Inr _ \<Rightarrow> None)"

section \<open>Launching an application\<close>

type_synonym WDAAppLaunchOption = wdaBody

definition NewWDAAppLaunchOption :: WDAAppLaunchOption where
  "NewWDAAppLaunchOption = Map.empty"

definition SetShouldWaitForQuiescence :: "bool \<Rightarrow> WDAAppLaunchOption \<Rightarrow> WDAAppLaunchOption" where
  "SetShouldWaitForQuiescence b alo = set_field ''shouldWaitForQuiescence'' (BoolValue b) alo"

definition SetArguments :: "string list \<Rightarrow> WDAAppLaunchOption \<Rightarrow> WDAAppLaunchOption" where
  "SetArguments args alo = set_field ''arguments'' (StringsValue args) alo"

definition SetEnvironment :: "(string \<times> string) list \<Rightarrow> WDAAppLaunchOption \<Rightarrow> WDAAppLaunchOption" where
  "SetEnvironment env alo = set_field ''environment'' (EnvValue env) alo"

text \<open>
  Modelled from the spec: the method \<open>setAppLaunchOption\<close> of \<open>wdaBody\<close>, which is not
  in session.go. The launch body of the specification is \<open>{bundleId,
  shouldWaitForQuiescence?, arguments?, environment?}\<close>: the fields of the option are
  stored into the body.
\<close>

definition setAppLaunchOption :: "WDAAppLaunchOption \<Rightarrow> wdaBody \<Rightarrow> wdaBody" where
  "setAppLaunchOption opt body = body ++ opt"

definition AppLaunch :: "internalPost \<Rightarrow> Session \<Rightarrow> string \<Rightarrow> WDAAppLaunchOption list \<Rightarrow> error option" where
  "AppLaunch internalPost s bundleId opt =
     (let opt = (if length opt = 0
                 then [SetShouldWaitForQuiescence True NewWDAAppLaunchOption] else opt);
          body = setBundleID bundleId newWdaBody;
          body = setAppLaunchOption (hd opt) body in
      case internalPost ''AppLaunch'' (urlJoin (sessionURL s) [''/wda/apps/launch'']) body of
        Inl err \<Rightarrow> Some err
      | Inr _ \<Rightarrow> None)"

section \<open>Base64 (encoding/base64)\<close>

text \<open>
  The two encodings of the Go library that session.go uses: the standard and the URL
  alphabet, both padded with \<open>=\<close>. A Go string converted to \<open>[]byte\<close> is its bytes,
  and a \<open>char\<close> is a byte. \<open>Encode\<close> follows the library's loop: three bytes give four
  characters, a rest of two or one byte gives three or two characters and the padding.
\<close>

record Encoding =
  encode :: string
  padChar :: char

definition encodeStd :: string where
  "encodeStd = ''ABCDEFGHIJKLMNOPQRSTUVWXYZabcdefghijklmnopqrstuvwxyz0123456789+/''"

definition encodeURL :: string where
  "encodeURL = ''ABCDEFGHIJKLMNOPQRSTUVWXYZabcdefghijklmnopqrstuvwxyz0123456789-_''"

definition StdEncoding :: Encoding where
  "StdEncoding = \<lparr>encode = encodeStd, padChar = CHR ''=''\<rparr>"

definition URLEncoding :: Encoding where
  "URLEncoding = \<lparr>encode = encodeURL, padChar = CHR ''=''\<rparr>"

definition sextet :: "Encoding \<Rightarrow> nat \<Rightarrow> nat \<Rightarrow> char" where
  "sextet enc val k = encode enc ! (drop_bit k val AND 63)"

fun Encode :: "Encoding \<Rightarrow> string \<Rightarrow> string" where
  "Encode enc (a # b # c # src) =
     (let val = push_bit 16 (of_char a) OR push_bit 8 (of_char b) OR of_char c in
      sextet enc val 18 # sextet enc val 12 # sextet enc val 6 # sextet enc val 0
        # Encode enc src)"
| "Encode enc [a, b] =
     (let val = push_bit 16 (of_char a) OR push_bit 8 (of_char b) in
      [sextet enc val 18, sextet enc val 12, sextet enc val 6, padChar enc])"
| "Encode enc [a] =
     (let val = push_bit 16 (of_char a) in
      [sextet enc val 18, sextet enc val 12, padChar enc, padChar enc])"
| "Encode enc [] = []"

definition EncodeToString :: "Encoding \<Rightarrow> string \<Rightarrow> string" where
  "EncodeToString enc src = Encode enc src"

text \<open>
  Decoding, as the library does it for a padded encoding: carriage returns and line
  feeds are skipped, every group of four characters of the alphabet gives three bytes,
  and only the last group may end in one or two padding characters, giving two bytes or
  one. Anything else is corrupt input.
\<close>

primrec decodeMap :: "string \<Rightarrow> char \<Rightarrow> nat option" where
  "decodeMap [] c = None"
| "decodeMap (x # xs) c = (if x = c then Some 0 else map_option Suc (decodeMap xs c))"

fun decodeQuanta :: "Encoding \<Rightarrow> string \<Rightarrow> string option" where
  "decodeQuanta enc [] = Some []"
| "decodeQuanta enc (c0 # c1 # c2 # c3 # src) =
     (case (decodeMap (encode enc) c0, decodeMap (encode enc) c1) of
        (Some d0, Some d1) \<Rightarrow>
          (case (decodeMap (encode enc) c2, decodeMap (encode enc) c3) of
             (Some d2, Some d3) \<Rightarrow>
               (let val = push_bit 18 d0 OR push_bit 12 d1 OR push_bit 6 d2 OR d3 in
                map_option (\<lambda>dst. char_of (drop_bit 16 val) # char_of (drop_bit 8 val)
                                     # char_of val # dst)
                  (decodeQuanta enc src))
           | (Some d2, None) \<Rightarrow>
               (let val = push_bit 18 d0 OR push_bit 12 d1 OR push_bit 6 d2 in
                if c3 = padChar enc \<and> src = []
                then Some [char_of (drop_bit 16 val), char_of (drop_bit 8 val)] else None)
           | (None, _) \<Rightarrow>
               (let val = push_bit 18 d0 OR push_bit 12 d1 in
                if c2 = padChar enc \<and> c3 = padChar enc \<and> src = []
                then Some [char_of (drop_bit 16 val)] else None))
      | _ \<Rightarrow> None)"
| "decodeQuanta enc _ = None"

definition DecodeString :: "Encoding \<Rightarrow> string \<Rightarrow> string option" where
  "DecodeString enc s = decodeQuanta enc (filter (\<lambda>c. c \<noteq> CHR 0x0D \<and> c \<noteq> CHR 0x0A) s)"

text \<open>
  What decoding needs of an encoding: 64 different characters, none of them the padding.
\<close>

definition padded_alphabet :: "Encoding \<Rightarrow> bool" where
  "padded_alphabet enc \<longleftrightarrow>
     distinct (encode enc) \<and> length (encode enc) = 64 \<and> padChar enc \<notin> set (encode enc)"

section \<open>The pasteboard\<close>

type_synonym WDAContentType = string

definition WDAContentTypePlaintext :: WDAContentType where
  "WDAContentTypePlaintext = ''plaintext''"

definition WDAContentTypeImage :: WDAContentType where
  "WDAContentTypeImage = ''image''"

definition WDAContentTypeUrl :: WDAContentType where
  "WDAContentTypeUrl = ''url''"

definition SetPasteboard :: "internalPost \<Rightarrow> Session \<Rightarrow> WDAContentType \<Rightarrow> string \<Rightarrow> error option" where
  "SetPasteboard internalPost s contentType encodedContent =
     (let body = newWdaBody;
          body = set_field ''contentType'' (StringValue contentType) body;
          body = set_field ''content'' (StringValue encodedContent) body in
      case internalPost ''SetPasteboard'' (urlJoin (sessionURL s) [''/wda/setPasteboard'']) body of
        Inl err \<Rightarrow> Some err
      | Inr _ \<Rightarrow> None)"

definition SetPasteboardForPlaintext :: "internalPost \<Rightarrow> Session \<Rightarrow> string \<Rightarrow> error option" where
  "SetPasteboardForPlaintext internalPost s content =
     (let encodedContent = EncodeToString StdEncoding content in
      SetPasteboard internalPost s WDAContentTypePlaintext encodedContent)"

definition SetPasteboardForUrl :: "internalPost \<Rightarrow> Session \<Rightarrow> string \<Rightarrow> error option" where
  "SetPasteboardForUrl internalPost s url =
     (let encodedContent = EncodeToString URLEncoding url in
      SetPasteboard internalPost s WDAContentTypeUrl encodedContent)"

text \<open>
  Files (os, io/ioutil). The operating system is a state: the files that exist and the
  descriptors that are open. \<open>os.Open\<close> fails on a name that cannot be opened and
  otherwise adds a descriptor to the open ones; \<open>ioutil.ReadAll\<close> answers with the
  bytes of the file or fails (a directory opens but cannot be read); \<open>Close\<close> releases
  the descriptor. Their errors are the \<open>IOError\<close> of the specification.
\<close>

datatype fileNode = Readable string | Unreadable

record osFile =
  fd :: nat
  node :: fileNode

record osState =
  files :: "string \<rightharpoonup> fileNode"
  openFds :: "nat list"
  nextFd :: nat

definition os_Open :: "string \<Rightarrow> osState \<Rightarrow> (error + osFile) \<times> osState" where
  "os_Open name st =
     (case files st name of
        None \<Rightarrow> (Inl (IOError (''open '' @ name)), st)
      | Some n \<Rightarrow>
          (Inr \<lparr>fd = nextFd st, node = n\<rparr>,
           st\<lparr>openFds := nextFd st # openFds st, nextFd := Suc (nextFd st)\<rparr>))"

definition ReadAll :: "osFile \<Rightarrow> error + string" where
  "ReadAll f = (case node f of Readable bytes \<Rightarrow> Inr bytes | Unreadable \<Rightarrow> Inl (IOError ''read''))"

definition Close :: "osFile \<Rightarrow> osState \<Rightarrow> osState" where
  "Close f st = st\<lparr>openFds := remove1 (fd f) (openFds st)\<rparr>"

text \<open>
  \<open>SetPasteboardForImage\<close>: the deferred \<open>imgFile.Close()\<close> runs on every return that
  follows a successful \<open>os.Open\<close>, after the returned error has been computed.
\<close>

definition SetPasteboardForImage ::
  "internalPost \<Rightarrow> Session \<Rightarrow> string \<Rightarrow> osState \<Rightarrow> error option \<times> osState" where
  "SetPasteboardForImage internalPost s filename st =
     (case os_Open filename st of
        (Inl err, st1) \<Rightarrow> (Some err, st1)
      | (Inr imgFile, st1) \<Rightarrow>
          (let err = (case ReadAll imgFile of
                        Inl err \<Rightarrow> Some err
                      | Inr all \<Rightarrow>
                          (let encodedContent = EncodeToString StdEncoding all in
                           SetPasteboard internalPost s WDAContentTypeImage encodedContent))
           in (err, Close imgFile st1)))"

section \<open>Typed information\<close>

text \<open>
  Every information struct has exported fields with JSON tags and the unexported field
  \<open>_string\<close> (here \<open>si_string\<close>, \<open>di_string\<close>, \<open>bi_string\<close>, \<open>size_string\<close> and
  \<open>screen_string\<close>). \<open>json.Unmarshal\<close> (encoding/json) is a parameter of every
  operation that decodes. It reaches exported fields only, so it is a function from the
  text and the current exported fields to the exported fields after decoding and the
  error, if any; a failed decoding may have stored some fields already.
\<close>

record Capabilities =
  CFBundleIdentifier :: string
  BrowserName :: string
  Device :: string
  SdkVersion :: string

record WDASessionInfo =
  Capabilities :: Capabilities
  SessionID :: string
  si_string :: string

definition zero_WDASessionInfo :: WDASessionInfo where
  "zero_WDASessionInfo =
     \<lparr>Capabilities = \<lparr>CFBundleIdentifier = [], BrowserName = [], Device = [], SdkVersion = []\<rparr>,
      SessionID = [], si_string = []\<rparr>"

type_synonym unmarshal_WDASessionInfo =
  "string \<Rightarrow> Capabilities \<times> string \<Rightarrow> (Capabilities \<times> string) \<times> error option"

definition GetActiveSession ::
  "internalGet \<Rightarrow> unmarshal_WDASessionInfo \<Rightarrow> Session \<Rightarrow> WDASessionInfo \<times> error option" where
  "GetActiveSession internalGet unmarshal s =
     (case internalGet ''GetActiveSession'' (urlJoin (sessionURL s) [[]]) of
        Inl err \<Rightarrow> (zero_WDASessionInfo, Some err)
      | Inr wdaResp \<Rightarrow>
          (let wdaSessionInfo = zero_WDASessionInfo\<lparr>si_string := value_String (getValue wdaResp)\<rparr>;
               ((caps, sid), err) = unmarshal (si_string wdaSessionInfo)
                    (Capabilities wdaSessionInfo, SessionID wdaSessionInfo) in
           (wdaSessionInfo\<lparr>Capabilities := caps, SessionID := sid\<rparr>, err)))"

record WDADeviceInfo =
  TimeZone :: string
  CurrentLocale :: string
  Model :: string
  UUID :: string
  UserInterfaceIdiom :: int
  UserInterfaceStyle :: string
  Name :: string
  IsSimulator :: bool
  di_string :: string

definition zero_WDADeviceInfo :: WDADeviceInfo where
  "zero_WDADeviceInfo =
     \<lparr>TimeZone = [], CurrentLocale = [], Model = [], UUID = [], UserInterfaceIdiom = 0,
      UserInterfaceStyle = [], Name = [], IsSimulator = False, di_string = []\<rparr>"

type_synonym WDADeviceInfo_exported =
  "string \<times> string \<times> string \<times> string \<times> int \<times> string \<times> string \<times> bool"

type_synonym unmarshal_WDADeviceInfo =
  "string \<Rightarrow> WDADeviceInfo_exported \<Rightarrow> WDADeviceInfo_exported \<times> error option"

definition DeviceInfo ::
  "internalGet \<Rightarrow> unmarshal_WDADeviceInfo \<Rightarrow> Session \<Rightarrow> WDADeviceInfo \<times> error option" where
  "DeviceInfo internalGet unmarshal s =
     (case internalGet ''DeviceInfo'' (urlJoin (sessionURL s) [''/wda/device/info'']) of
        Inl err \<Rightarrow> (zero_WDADeviceInfo, Some err)
      | Inr wdaResp \<Rightarrow>
          (let wdaDeviceInfo = zero_WDADeviceInfo\<lparr>di_string := value_String (getValue wdaResp)\<rparr>;
               ((tz, loc, mdl, uuid, idiom, style, nm, sim), err) =
                  unmarshal (di_string wdaDeviceInfo)
                    (TimeZone wdaDeviceInfo, CurrentLocale wdaDeviceInfo, Model wdaDeviceInfo,
                     UUID wdaDeviceInfo, UserInterfaceIdiom wdaDeviceInfo,
                     UserInterfaceStyle wdaDeviceInfo, Name wdaDeviceInfo,
                     IsSimulator wdaDeviceInfo) in
           (wdaDeviceInfo\<lparr>TimeZone := tz, CurrentLocale := loc, Model := mdl, UUID := uuid,
               UserInterfaceIdiom := idiom, UserInterfaceStyle := style, Name := nm,
               IsSimulator := sim\<rparr>, err)))"

type_synonym WDABatteryState = int

definition WDABatteryUnplugged :: WDABatteryState where
  "WDABatteryUnplugged = 1"

definition WDABatteryCharging :: WDABatteryState where
  "WDABatteryCharging = 2"

definition WDABatteryFull :: WDABatteryState where
  "WDABatteryFull = 3"

definition WDABatteryState_String :: "WDABatteryState \<Rightarrow> string" where
  "WDABatteryState_String v =
     (if v = WDABatteryUnplugged then ''On battery, discharging''
      else if v = WDABatteryCharging then ''Plugged in, less than 100%''
      else if v = WDABatteryFull then ''Plugged in, at 100%''
      else ''UNKNOWN'')"

record WDABatteryInfo =
  Level :: float32
  State :: WDABatteryState
  bi_string :: string

definition zero_WDABatteryInfo :: WDABatteryInfo where
  "zero_WDABatteryInfo = \<lparr>Level = 0, State = 0, bi_string = []\<rparr>"

type_synonym unmarshal_WDABatteryInfo =
  "string \<Rightarrow> float32 \<times> WDABatteryState \<Rightarrow> (float32 \<times> WDABatteryState) \<times> error option"

definition BatteryInfo ::
  "internalGet \<Rightarrow> unmarshal_WDABatteryInfo \<Rightarrow> Session \<Rightarrow> WDABatteryInfo \<times> error option" where
  "BatteryInfo internalGet unmarshal s =
     (case internalGet ''BatteryInfo'' (urlJoin (sessionURL s) [''/wda/batteryInfo'']) of
        Inl err \<Rightarrow> (zero_WDABatteryInfo, Some err)
      | Inr wdaResp \<Rightarrow>
          (let wdaBatteryInfo = zero_WDABatteryInfo\<lparr>bi_string := value_String (getValue wdaResp)\<rparr>;
               ((lvl, st), err) = unmarshal (bi_string wdaBatteryInfo)
                    (Level wdaBatteryInfo, State wdaBatteryInfo) in
           (wdaBatteryInfo\<lparr>Level := lvl, State := st\<rparr>, err)))"

record WDASize =
  Width :: int
  Height :: int
  size_string :: string

definition zero_WDASize :: WDASize where
  "zero_WDASize = \<lparr>Width = 0, Height = 0, size_string = []\<rparr>"

type_synonym unmarshal_WDASize =
  "string \<Rightarrow> int \<times> int \<Rightarrow> (int \<times> int) \<times> error option"

definition WindowSize ::
  "internalGet \<Rightarrow> unmarshal_WDASize \<Rightarrow> Session \<Rightarrow> WDASize \<times> error option" where
  "WindowSize internalGet unmarshal s =
     (case internalGet ''WindowSize'' (urlJoin (sessionURL s) [''/window/size'']) of
        Inl err \<Rightarrow> (zero_WDASize, Some err)
      | Inr wdaResp \<Rightarrow>
          (let wdaSize = zero_WDASize\<lparr>size_string := value_String (getValue wdaResp)\<rparr>;
               ((w, h), err) = unmarshal (size_string wdaSize) (Width wdaSize, Height wdaSize) in
           (wdaSize\<lparr>Width := w, Height := h\<rparr>, err)))"

record WDAScreen =
  StatusBarSize :: WDASize
  Scale :: float32
  screen_string :: string

definition zero_WDAScreen :: WDAScreen where
  "zero_WDAScreen = \<lparr>StatusBarSize = zero_WDASize, Scale = 0, screen_string = []\<rparr>"

text \<open>
  Decoding a \<open>WDAScreen\<close> reaches \<open>Scale\<close> and the exported fields \<open>Width\<close> and
  \<open>Height\<close> of the nested \<open>StatusBarSize\<close>.
\<close>

type_synonym unmarshal_WDAScreen =
  "string \<Rightarrow> (int \<times> int) \<times> float32 \<Rightarrow> ((int \<times> int) \<times> float32) \<times> error option"

definition Screen ::
  "internalGet \<Rightarrow> unmarshal_WDAScreen \<Rightarrow> Session \<Rightarrow> WDAScreen \<times> error option" where
  "Screen internalGet unmarshal s =
     (case internalGet ''Screen'' (urlJoin (sessionURL s) [''/wda/screen'']) of
        Inl err \<Rightarrow> (zero_WDAScreen, Some err)
      | Inr wdaResp \<Rightarrow>
          (let wdaScreen = zero_WDAScreen\<lparr>StatusBarSize := (StatusBarSize zero_WDAScreen)
                  \<lparr>size_string := value_String (value_Get ''statusBarSize'' (getValue wdaResp))\<rparr>\<rparr>;
               wdaScreen = wdaScreen\<lparr>screen_string := value_String (getValue wdaResp)\<rparr>;
               (((w, h), scale), err) = unmarshal (screen_string wdaScreen)
                    ((Width (StatusBarSize wdaScreen), Height (StatusBarSize wdaScreen)),
                     Scale wdaScreen) in
           (wdaScreen\<lparr>StatusBarSize := (StatusBarSize wdaScreen)\<lparr>Width := w, Height := h\<rparr>,
                      Scale := scale\<rparr>, err)))"

text \<open>The methods \<open>Scale\<close> and \<open>StatusBarSize\<close> of \<open>Session\<close>; the plain names are the fields.\<close>

definition Scale_method ::
  "internalGet \<Rightarrow> unmarshal_WDAScreen \<Rightarrow> Session \<Rightarrow> float32 \<times> error option" where
  "Scale_method internalGet unmarshal s =
     (let (screen, err) = Screen internalGet unmarshal s in (Scale screen, err))"

definition StatusBarSize_method ::
  "internalGet \<Rightarrow> unmarshal_WDAScreen \<Rightarrow> Session \<Rightarrow> WDASize \<times> error option" where
  "StatusBarSize_method internalGet unmarshal s =
     (let (screen, err) = Screen internalGet unmarshal s in (StatusBarSize screen, err))"

section \<open>Finding elements\<close>

text \<open>
  Modelled from the spec: the type \<open>Element\<close>, which is not in session.go: a handle
  scoped by its URL. session.go writes its field \<open>elementURL\<close>, a pointer to a URL that
  is \<open>nil\<close> until it is set.
\<close>

record Element =
  elementURL :: "URL option"

text \<open>
  \<open>url.Parse\<close> (net/url) is a parameter of \<open>FindElements\<close>: it answers with an error
  or with the URL of a text. The URL may print differently from the text it was parsed
  from, as the parser escapes what it accepts. \<open>FindElements\<close> discards the error, and
  the pointer it stores is then \<open>nil\<close>.
\<close>

type_synonym urlParse = "string \<Rightarrow> error + URL"

definition FindElements ::
  "internalPost \<Rightarrow> urlParse \<Rightarrow> Session \<Rightarrow> string \<Rightarrow> string \<Rightarrow> Element list \<times> error option" where
  "FindElements internalPost url_Parse s using val =
     (let body = set_field ''value'' (StringValue val)
                   (set_field ''using'' (StringValue using) newWdaBody) in
      case internalPost ''FindElements'' (urlJoin (sessionURL s) [''elements'']) body of
        Inl err \<Rightarrow> ([], Some err)
      | Inr wdaResp \<Rightarrow>
          (let results = value_Array (getValue wdaResp) in
           if length results = 0 then ([], Some ErrNoSuchElement)
           else (map (\<lambda>res.
                        let elementId = value_String (value_Get ''ELEMENT'' res) in
                        \<lparr>elementURL =
                           (case url_Parse (urlJoin (sessionURL s) [''element'', elementId]) of
                              Inl _ \<Rightarrow> None | Inr u \<Rightarrow> Some u)\<rparr>)
                     results, None)))"

section \<open>Sample inputs\<close>

text \<open>The concrete sessions, responses and files at which the properties are evaluated.\<close>

definition sample_session :: Session where
  "sample_session = \<lparr>sessionURL = ''http://localhost:8100/session/8BF16568''\<rparr>"

text \<open>A response whose envelope carries an embedded error message.\<close>

definition sample_error_response :: wdaResponse where
  "sample_error_response = \<lparr>respValue = absent_value, respErrMsg = ''invalid element state''\<rparr>"

text \<open>The responses \<open>{"value":[{"ELEMENT":"E1"},{"ELEMENT":"E2"}]}\<close> and \<open>{"value":[]}\<close>.\<close>

definition sample_elements_response :: wdaResponse where
  \<open>sample_elements_response =
     \<lparr>respValue = WdaValue ''[{"ELEMENT":"E1"},{"ELEMENT":"E2"}]''
          ''[{"ELEMENT":"E1"},{"ELEMENT":"E2"}]'' 0
        [WdaValue ''{"ELEMENT":"E1"}'' ''{"ELEMENT":"E1"}'' 0 []
           [(''ELEMENT'', WdaValue ''"E1"'' ''E1'' 0 [] [])],
         WdaValue ''{"ELEMENT":"E2"}'' ''{"ELEMENT":"E2"}'' 0 []
           [(''ELEMENT'', WdaValue ''"E2"'' ''E2'' 0 [] [])]] [],
      respErrMsg = []\<rparr>\<close>

definition sample_empty_response :: wdaResponse where
  "sample_empty_response = \<lparr>respValue = WdaValue ''[]'' ''[]'' 0 [] [], respErrMsg = []\<rparr>"

text \<open>
  The response \<open>{"value":[{"ELEMENT":"%zz"}]}\<close>, and \<open>url.Parse\<close> at the texts used
  here: it rejects the text that ends in the invalid escape \<open>%zz\<close>, and for the two
  element URLs above it answers the URL that prints as the text itself.
\<close>

definition sample_escape_response :: wdaResponse where
  \<open>sample_escape_response =
     \<lparr>respValue = WdaValue ''[{"ELEMENT":"%zz"}]'' ''[{"ELEMENT":"%zz"}]'' 0
        [WdaValue ''{"ELEMENT":"%zz"}'' ''{"ELEMENT":"%zz"}'' 0 []
           [(''ELEMENT'', WdaValue ''"%zz"'' ''%zz'' 0 [] [])]] [],
      respErrMsg = []\<rparr>\<close>

definition sample_url_Parse :: urlParse where
  "sample_url_Parse rawURL =
     (if rawURL = ''http://localhost:8100/session/8BF16568/element/%zz''
      then Inl (URLError ''invalid URL escape'') else Inr rawURL)"

text \<open>
  The response \<open>{"value":{"level":0.5,"state":7}}\<close> to a battery query, and
  \<open>json.Unmarshal\<close> into a \<open>WDABatteryInfo\<close> at the text of that value: both members are
  stored and the error is \<open>nil\<close>. At the two texts below, which it cannot decode, it
  stores nothing and returns an error; other texts are not in this table.
\<close>

definition sample_battery_text :: string where
  \<open>sample_battery_text = ''{"level":0.5,"state":7}''\<close>

definition sample_battery_response :: wdaResponse where
  "sample_battery_response =
     \<lparr>respValue = WdaValue sample_battery_text sample_battery_text 0 []
        [(''level'', WdaValue ''0.5'' ''0.5'' 0 [] []), (''state'', WdaValue ''7'' ''7'' 7 [] [])],
      respErrMsg = []\<rparr>"

definition sample_unmarshal_WDABatteryInfo :: unmarshal_WDABatteryInfo where
  "sample_unmarshal_WDABatteryInfo data v =
     (if data = sample_battery_text then ((1 / 2, 7), None)
      else (v, Some (DecodeError data)))"

text \<open>
  The response \<open>{"value":{"sessionId":1,"uuid":1,"level":"x","width":"x","scale":"x"}}\<close>,
  an object whose members have the wrong type for each of the five structs, and
  \<open>json.Unmarshal\<close> at the text of that value: it stores nothing and returns a type
  error.
\<close>

definition sample_mismatch_text :: string where
  \<open>sample_mismatch_text = ''{"sessionId":1,"uuid":1,"level":"x","width":"x","scale":"x"}''\<close>

definition sample_mismatch_response :: wdaResponse where
  \<open>sample_mismatch_response =
     \<lparr>respValue = WdaValue sample_mismatch_text sample_mismatch_text 0 []
        [(''sessionId'', WdaValue ''1'' ''1'' 1 [] []), (''uuid'', WdaValue ''1'' ''1'' 1 [] []),
         (''level'', WdaValue ''"x"'' ''x'' 0 [] []), (''width'', WdaValue ''"x"'' ''x'' 0 [] []),
         (''scale'', WdaValue ''"x"'' ''x'' 0 [] [])],
      respErrMsg = []\<rparr>\<close>

text \<open>
  The response \<open>{"value":"oops"}\<close>, whose value is a JSON string: its raw JSON text has
  the quotes and its \<open>String()\<close> has not. \<open>json.Unmarshal\<close> at the text \<open>oops\<close>, which is
  not JSON, stores nothing and returns a syntax error.
\<close>

definition sample_string_response :: wdaResponse where
  \<open>sample_string_response = \<lparr>respValue = WdaValue ''"oops"'' ''oops'' 0 [] [], respErrMsg = []\<rparr>\<close>

text \<open>\<open>json.Unmarshal\<close> where it stores nothing and returns an error.\<close>

definition unmarshal_error :: "string \<Rightarrow> 'a \<Rightarrow> 'a \<times> error option" where
  "unmarshal_error data v = (v, Some (DecodeError data))"

text \<open>
  An operating system with a regular file, a directory (it opens, and reading it fails)
  and the three standard descriptors open.
\<close>

definition sample_os :: osState where
  "sample_os = \<lparr>files = [''/tmp/icon.png'' \<mapsto> Readable ''hello'', ''/tmp'' \<mapsto> Unreadable],
                openFds = [0, 1, 2], nextFd = 3\<rparr>"

section \<open>Base64: decoding what was encoded\<close>

text \<open>
  The shifts and masks of \<open>Encode\<close> and \<open>decodeQuanta\<close> in arithmetic: a mask with 63
  is a remainder, and an \<open>OR\<close> of fields that do not overlap is a sum.
\<close>

lemma and_63: "(n::nat) AND 63 = n mod 64"
proof -
  have "n AND 63 = n AND mask 6" by (simp add: mask_eq_exp_minus_1)
  also have "\<dots> = take_bit 6 n" by (simp only: take_bit_eq_mask)
  also have "\<dots> = n mod 64" by (simp add: take_bit_eq_mod)
  finally show ?thesis .
qed

lemma or_push_bit_add:
  fixes a b :: nat
  assumes "a < 2 ^ k"
  shows "push_bit k b OR a = b * 2 ^ k + a"
proof -
  have "push_bit k b + a = push_bit k b OR a"
  proof (rule disjunctive_add)
    fix n
    show "\<not> bit (push_bit k b) n \<or> \<not> bit a n"
    proof (cases "k \<le> n")
      case True
      then have "(2::nat) ^ k \<le> 2 ^ n" by simp
      with assms have "a < 2 ^ n" by linarith
      then have "a div 2 ^ n = 0" by simp
      then show ?thesis by (simp add: bit_iff_odd)
    next
      case False
      then show ?thesis by (simp add: bit_push_bit_iff)
    qed
  qed
  then show ?thesis by (simp add: push_bit_eq_mult)
qed

lemma pack3:
  fixes a b c :: nat
  assumes "a < 256" "b < 256" "c < 256"
  shows "push_bit 16 a OR push_bit 8 b OR c = a * 65536 + b * 256 + c"
proof -
  have 1: "push_bit 8 b OR c = b * 256 + c"
    using or_push_bit_add[of c 8 b] assms by simp
  have "b * 256 + c < 2 ^ 16" using assms by simp
  from or_push_bit_add[OF this, of a] 1 show ?thesis by (simp add: or.assoc)
qed

lemma pack4:
  fixes d0 d1 d2 d3 :: nat
  assumes "d1 < 64" "d2 < 64" "d3 < 64"
  shows "push_bit 18 d0 OR push_bit 12 d1 OR push_bit 6 d2 OR d3
         = d0 * 262144 + d1 * 4096 + d2 * 64 + d3"
proof -
  have 1: "push_bit 6 d2 OR d3 = d2 * 64 + d3"
    using or_push_bit_add[of d3 6 d2] assms by simp
  have "d2 * 64 + d3 < 2 ^ 12" using assms by simp
  from or_push_bit_add[OF this, of d1] 1
  have 2: "push_bit 12 d1 OR push_bit 6 d2 OR d3 = d1 * 4096 + d2 * 64 + d3"
    by (simp add: or.assoc)
  have "d1 * 4096 + d2 * 64 + d3 < 2 ^ 18" using assms by simp
  from or_push_bit_add[OF this, of d0] 2 show ?thesis by (simp add: or.assoc)
qed

lemma sextets_sum:
  fixes v :: nat
  assumes "v < 16777216"
  shows "(v div 262144 mod 64) * 262144 + (v div 4096 mod 64) * 4096
           + (v div 64 mod 64) * 64 + v mod 64 = v"
proof -
  define q1 where "q1 = v div 64"
  define q2 where "q2 = q1 div 64"
  define q3 where "q3 = q2 div 64"
  have e1: "v = q1 * 64 + v mod 64" by (simp add: q1_def)
  have e2: "q1 = q2 * 64 + q1 mod 64" by (simp add: q2_def)
  have e3: "q2 = q3 * 64 + q2 mod 64" by (simp add: q3_def)
  have d2: "v div 4096 = q2" by (simp add: q2_def q1_def div_mult2_eq)
  have d3: "v div 262144 = q3" by (simp add: q3_def q2_def q1_def div_mult2_eq)
  have "q3 < 64" using assms unfolding d3[symmetric] by simp
  then have m3: "q3 mod 64 = q3" by simp
  show ?thesis
    unfolding d2 d3 m3 q1_def[symmetric] using e1 e2 e3 by linarith
qed

lemma sextets_pack:
  fixes v :: nat
  assumes "v < 16777216"
  shows "push_bit 18 (drop_bit 18 v AND 63) OR push_bit 12 (drop_bit 12 v AND 63)
           OR push_bit 6 (drop_bit 6 v AND 63) OR (drop_bit 0 v AND 63) = v"
proof -
  have "push_bit 18 (drop_bit 18 v AND 63) OR push_bit 12 (drop_bit 12 v AND 63)
           OR push_bit 6 (drop_bit 6 v AND 63) OR (drop_bit 0 v AND 63)
        = (v div 262144 mod 64) * 262144 + (v div 4096 mod 64) * 4096
            + (v div 64 mod 64) * 64 + v mod 64"
    by (subst pack4) (simp_all add: and_63 drop_bit_eq_div)
  then show ?thesis by (simp only: sextets_sum[OF assms])
qed

lemma sextets_pack2:
  fixes v :: nat
  assumes "v < 16777216" "v mod 64 = 0"
  shows "push_bit 18 (drop_bit 18 v AND 63) OR push_bit 12 (drop_bit 12 v AND 63)
           OR push_bit 6 (drop_bit 6 v AND 63) = v"
proof -
  have "drop_bit 0 v AND 63 = 0" using assms(2) by (simp add: and_63)
  with sextets_pack[OF assms(1)] show ?thesis by (simp only: or.right_neutral)
qed

lemma sextets_pack1:
  fixes v :: nat
  assumes "v < 16777216" "v mod 4096 = 0"
  shows "push_bit 18 (drop_bit 18 v AND 63) OR push_bit 12 (drop_bit 12 v AND 63) = v"
proof -
  obtain k where k: "v = 4096 * k" using assms(2) by (auto simp: mod_eq_0_iff_dvd)
  have "v mod 64 = 0" unfolding k by simp
  moreover have "v div 64 = 64 * k" unfolding k by simp
  then have "drop_bit 6 v AND 63 = 0" by (simp add: and_63 drop_bit_eq_div)
  ultimately show ?thesis using sextets_pack2[OF assms(1)]
    by (simp only: push_bit_of_0 or.right_neutral)
qed

lemma unpack3_nat:
  fixes a b c :: nat
  assumes "a < 256" "b < 256" "c < 256"
  shows "(a * 65536 + b * 256 + c) div 65536 = a"
    and "(a * 65536 + b * 256 + c) div 256 mod 256 = b"
    and "(a * 65536 + b * 256 + c) mod 256 = c"
proof -
  have "b * 256 + c < 65536" using assms by simp
  then show "(a * 65536 + b * 256 + c) div 65536 = a"
    by (simp add: add.assoc)
  have "(a * 65536 + b * 256 + c) div 256 = a * 256 + b" using assms by simp
  then show "(a * 65536 + b * 256 + c) div 256 mod 256 = b" using assms by simp
  have e: "a * 65536 + b * 256 + c = (a * 256 + b) * 256 + c" by simp
  show "(a * 65536 + b * 256 + c) mod 256 = c"
    by (simp only: e mod_mult_self3) (use assms in simp)
qed

lemma unpack3:
  fixes a b c :: nat
  assumes "a < 256" "b < 256" "c < 256"
  defines "val \<equiv> a * 65536 + b * 256 + c"
  shows "char_of (drop_bit 16 val) = char_of a"
    and "char_of (drop_bit 8 val) = char_of b"
    and "char_of val = char_of c"
proof -
  note u = unpack3_nat[OF assms(1-3), folded val_def]
  show "char_of (drop_bit 16 val) = char_of a"
    by (simp add: drop_bit_eq_div u(1))
  have "char_of (drop_bit 8 val) = char_of (val div 256 mod 256)"
    by (simp add: drop_bit_eq_div)
  then show "char_of (drop_bit 8 val) = char_of b" by (simp only: u(2))
  have "char_of val = char_of (val mod 256)" by simp
  then show "char_of val = char_of c" by (simp only: u(3))
qed

text \<open>The decoding map inverts the alphabet, and the padding is not in it.\<close>

lemma decodeMap_nth:
  "distinct xs \<Longrightarrow> i < length xs \<Longrightarrow> decodeMap xs (xs ! i) = Some i"
proof (induction xs arbitrary: i)
  case Nil
  then show ?case by simp
next
  case (Cons x xs)
  show ?case
  proof (cases i)
    case 0
    then show ?thesis by simp
  next
    case (Suc j)
    with Cons.prems have "xs ! j \<in> set xs" "x \<notin> set xs" "distinct xs" "j < length xs" by auto
    with Cons.IH[of j] Suc show ?thesis by auto
  qed
qed

lemma decodeMap_notin: "c \<notin> set xs \<Longrightarrow> decodeMap xs c = None"
  by (induction xs) auto

lemma decodeMap_sextet:
  "padded_alphabet enc \<Longrightarrow> decodeMap (encode enc) (sextet enc val k) = Some (drop_bit k val AND 63)"
  unfolding sextet_def padded_alphabet_def
  by (intro decodeMap_nth) (simp_all add: and_63)

lemma decodeMap_pad:
  "padded_alphabet enc \<Longrightarrow> decodeMap (encode enc) (padChar enc) = None"
  unfolding padded_alphabet_def by (simp add: decodeMap_notin)

lemma padded_StdEncoding: "padded_alphabet StdEncoding"
  by (simp add: padded_alphabet_def StdEncoding_def encodeStd_def)

lemma padded_URLEncoding: "padded_alphabet URLEncoding"
  by (simp add: padded_alphabet_def URLEncoding_def encodeURL_def)

text \<open>One group of four characters, whole or padded, gives its bytes back.\<close>

lemma decodeQuanta_full:
  assumes wf: "padded_alphabet enc" and lt: "val < 16777216"
  shows "decodeQuanta enc (sextet enc val 18 # sextet enc val 12 # sextet enc val 6
            # sextet enc val 0 # rest)
         = map_option (\<lambda>dst. char_of (drop_bit 16 val) # char_of (drop_bit 8 val)
                                  # char_of val # dst) (decodeQuanta enc rest)"
  by (simp only: decodeQuanta.simps decodeMap_sextet[OF wf] prod.case option.case Let_def
        sextets_pack[OF lt])

lemma decodeQuanta_two:
  assumes wf: "padded_alphabet enc" and lt: "val < 16777216" and m: "val mod 64 = 0"
  shows "decodeQuanta enc [sextet enc val 18, sextet enc val 12, sextet enc val 6, padChar enc]
         = Some [char_of (drop_bit 16 val), char_of (drop_bit 8 val)]"
  by (simp only: decodeQuanta.simps decodeMap_sextet[OF wf] decodeMap_pad[OF wf]
        prod.case option.case Let_def sextets_pack2[OF lt m] simp_thms if_True)

lemma decodeQuanta_one:
  assumes wf: "padded_alphabet enc" and lt: "val < 16777216" and m: "val mod 4096 = 0"
  shows "decodeQuanta enc [sextet enc val 18, sextet enc val 12, padChar enc, padChar enc]
         = Some [char_of (drop_bit 16 val)]"
  by (simp only: decodeQuanta.simps decodeMap_sextet[OF wf] decodeMap_pad[OF wf]
        prod.case option.case Let_def sextets_pack1[OF lt m] simp_thms if_True)

lemma decodeQuanta_Encode:
  "padded_alphabet enc \<Longrightarrow> decodeQuanta enc (Encode enc src) = Some src"
proof (induction enc src rule: Encode.induct)
  case (1 enc a b c src)
  define val :: nat where "val = push_bit 16 (of_char a) OR push_bit 8 (of_char b) OR of_char c"
  have v: "val = of_char a * 65536 + of_char b * 256 + of_char c"
    unfolding val_def by (rule pack3) simp_all
  have "of_char a * 65536 + of_char b * 256 + (of_char c :: nat) < 16777216"
    using nat_of_char_less_256[of a] nat_of_char_less_256[of b] nat_of_char_less_256[of c]
    by linarith
  then have lt: "val < 16777216" by (simp only: v)
  have bytes: "char_of (drop_bit 16 val) = a" "char_of (drop_bit 8 val) = b" "char_of val = c"
    using unpack3[of "of_char a" "of_char b" "of_char c"] by (simp_all add: v)
  have "Encode enc (a # b # c # src)
        = sextet enc val 18 # sextet enc val 12 # sextet enc val 6 # sextet enc val 0
            # Encode enc src"
    by (simp only: Encode.simps Let_def val_def)
  then show ?case
    by (simp only: decodeQuanta_full[OF "1.prems" lt] bytes "1.IH"[OF refl "1.prems"] option.map)
next
  case (2 enc a b)
  define val :: nat where "val = push_bit 16 (of_char a) OR push_bit 8 (of_char b)"
  have v: "val = of_char a * 65536 + of_char b * 256 + 0"
    using pack3[of "of_char a" "of_char b" 0] by (simp add: val_def)
  have "of_char a * 65536 + of_char b * 256 + (0 :: nat) < 16777216"
    using nat_of_char_less_256[of a] nat_of_char_less_256[of b] by linarith
  then have lt: "val < 16777216" by (simp only: v)
  have "val = 64 * (of_char a * 1024 + of_char b * 4)" by (simp add: v)
  then have m: "val mod 64 = 0" by (simp only: mod_mult_self1_is_0)
  have bytes: "char_of (drop_bit 16 val) = a" "char_of (drop_bit 8 val) = b"
    using unpack3(1,2)[of "of_char a" "of_char b" 0] by (simp_all add: v)
  have "Encode enc [a, b]
        = [sextet enc val 18, sextet enc val 12, sextet enc val 6, padChar enc]"
    by (simp only: Encode.simps Let_def val_def)
  then show ?case
    by (simp only: decodeQuanta_two[OF "2.prems" lt m] bytes)
next
  case (3 enc a)
  define val :: nat where "val = push_bit 16 (of_char a)"
  have v: "val = of_char a * 65536 + 0 * 256 + 0"
    by (simp add: val_def push_bit_eq_mult)
  have "of_char a * 65536 + 0 * 256 + (0 :: nat) < 16777216"
    using nat_of_char_less_256[of a] by linarith
  then have lt: "val < 16777216" by (simp only: v)
  have "val = 4096 * (of_char a * 16)" by (simp add: v)
  then have m: "val mod 4096 = 0" by (simp only: mod_mult_self1_is_0)
  have bytes: "char_of (drop_bit 16 val) = a"
    using unpack3(1)[of "of_char a" 0 0] by (simp add: v)
  have "Encode enc [a] = [sextet enc val 18, sextet enc val 12, padChar enc, padChar enc]"
    by (simp only: Encode.simps Let_def val_def)
  then show ?case
    by (simp only: decodeQuanta_one[OF "3.prems" lt m] bytes)
next
  case (4 enc)
  show ?case by simp
qed

text \<open>The characters of an encoded text are those of the alphabet and the padding.\<close>

lemma sextet_in_alphabet:
  "length (encode enc) = 64 \<Longrightarrow> sextet enc val k \<in> set (encode enc)"
  unfolding sextet_def by (rule nth_mem) (simp add: and_63)

lemma set_Encode:
  "length (encode enc) = 64 \<Longrightarrow> set (Encode enc src) \<subseteq> insert (padChar enc) (set (encode enc))"
  by (induction enc src rule: Encode.induct) (auto simp: Let_def sextet_in_alphabet)

lemma DecodeString_EncodeToString:
  assumes "padded_alphabet enc"
    and "CHR 0x0D \<notin> insert (padChar enc) (set (encode enc))"
    and "CHR 0x0A \<notin> insert (padChar enc) (set (encode enc))"
  shows "DecodeString enc (EncodeToString enc src) = Some src"
proof -
  have "length (encode enc) = 64" using assms(1) by (simp add: padded_alphabet_def)
  from set_Encode[OF this, of src] assms(2,3)
  have "filter (\<lambda>c. c \<noteq> CHR 0x0D \<and> c \<noteq> CHR 0x0A) (Encode enc src) = Encode enc src"
    by (intro filter_True) blast
  then show ?thesis
    by (simp add: DecodeString_def EncodeToString_def decodeQuanta_Encode[OF assms(1)])
qed

lemma DecodeString_Std: "DecodeString StdEncoding (EncodeToString StdEncoding src) = Some src"
  by (rule DecodeString_EncodeToString[OF padded_StdEncoding])
     (simp_all add: StdEncoding_def encodeStd_def)

lemma DecodeString_URL: "DecodeString URLEncoding (EncodeToString URLEncoding src) = Some src"
  by (rule DecodeString_EncodeToString[OF padded_URLEncoding])
     (simp_all add: URLEncoding_def encodeURL_def)

lemma URL_no_plus_slash:
  "CHR ''+'' \<notin> set (EncodeToString URLEncoding src)"
  "CHR ''/'' \<notin> set (EncodeToString URLEncoding src)"
proof -
  have "length (encode URLEncoding) = 64" by (simp add: URLEncoding_def encodeURL_def)
  from set_Encode[OF this, of src]
  have "set (EncodeToString URLEncoding src) \<subseteq> insert (CHR ''='') (set encodeURL)"
    by (simp add: EncodeToString_def URLEncoding_def)
  moreover have "CHR ''+'' \<notin> insert (CHR ''='') (set encodeURL)"
    "CHR ''/'' \<notin> insert (CHR ''='') (set encodeURL)"
    by (simp_all add: encodeURL_def)
  ultimately show "CHR ''+'' \<notin> set (EncodeToString URLEncoding src)"
    "CHR ''/'' \<notin> set (EncodeToString URLEncoding src)" by blast+
qed

section \<open>Properties of the session operations\<close>

lemma WDAAppRunState_codes:
  "WDAAppNotRunning = 1" "WDAAppRunningBack = 2" "WDAAppRunningFront = 4"
  by (simp_all add: WDAAppNotRunning_def WDAAppRunningBack_def WDAAppRunningFront_def)

lemma prefix_urlJoin: "prefix base (urlJoin base elem)"
  by (simp add: urlJoin_def)

text \<open>
  C1. An operation whose transport call succeeds with an envelope that carries a
  non-empty embedded error message should return that failure as a \<open>ServerError\<close>.
  Evaluated at such a response: \<open>Tap\<close> returns the \<open>ServerError\<close>, whereas \<open>DoubleTap\<close>,
  \<open>TouchAndHold\<close>, \<open>AppTerminate\<close>, \<open>SetPasteboard\<close> and \<open>PressButton\<close> return \<open>nil\<close>.
\<close>

theorem embedded_error_returned_by_Tap_only:
  "Tap (\<lambda>actionName url body. Inr sample_error_response) sample_session 10 20
     = Some (ServerError ''invalid element state'')
   \<and> DoubleTap (\<lambda>actionName url body. Inr sample_error_response) sample_session 10 20 = None
   \<and> TouchAndHold (\<lambda>actionName url body. Inr sample_error_response) sample_session 10 20 []
     = None
   \<and> AppTerminate (\<lambda>actionName url body. Inr sample_error_response) sample_session
        ''com.apple.Preferences'' = None
   \<and> SetPasteboard (\<lambda>actionName url body. Inr sample_error_response) sample_session
        WDAContentTypePlaintext ''aGVsbG8='' = None
   \<and> PressButton (\<lambda>actionName url body. Inr sample_error_response) sample_session
        WDADeviceButtonHome = None"
  by (simp add: Tap_def DoubleTap_def TouchAndHold_def AppTerminate_def SetPasteboard_def
      PressButton_def getErrMsg_def sample_error_response_def)

text \<open>
  C2, as stated, fails: a handle that \<open>FindElements\<close> returns may have no URL. At the
  response \<open>{"value":[{"ELEMENT":"%zz"}]}\<close> the joined text ends in an invalid escape,
  \<open>url.Parse\<close> rejects it, and \<open>FindElements\<close> returns no error and one handle whose
  URL is \<open>nil\<close>.
\<close>

theorem FindElements_nil_URL:
  "value_Array (getValue sample_escape_response) \<noteq> []
   \<and> urlJoin (sessionURL sample_session) [''element'', ''%zz'']
     = ''http://localhost:8100/session/8BF16568/element/%zz''
   \<and> FindElements (\<lambda>actionName url body. Inr sample_escape_response) sample_url_Parse
       sample_session ''class name'' ''XCUIElementTypeButton''
     = ([\<lparr>elementURL = None\<rparr>], None)"
  by (simp add: FindElements_def sample_escape_response_def sample_url_Parse_def
      sample_session_def getValue_def value_Get_def urlJoin_def)

text \<open>
  C2, amended. When the transport call of \<open>FindElements\<close> succeeds and the value of the
  response reads as a non-empty array, \<open>FindElements\<close> returns no error and one handle
  for every item, so a non-empty sequence. The URL of the handle of an item is what
  \<open>url.Parse\<close> answers for the text that joins the session's base URL, \<open>element\<close> and
  the item's \<open>ELEMENT\<close>; that text has the base URL as a prefix, and the URL is \<open>nil\<close>
  when \<open>url.Parse\<close> rejects it. When the value reads as an empty array, \<open>FindElements\<close>
  returns \<open>nil\<close> and \<open>ErrNoSuchElement\<close>.
\<close>

theorem FindElements_handles:
  assumes "internalPost ''FindElements'' (urlJoin (sessionURL s) [''elements''])
             [''using'' \<mapsto> StringValue using, ''value'' \<mapsto> StringValue val] = Inr wdaResp"
  shows "(value_Array (getValue wdaResp) \<noteq> [] \<longrightarrow>
            snd (FindElements internalPost url_Parse s using val) = None
          \<and> fst (FindElements internalPost url_Parse s using val) \<noteq> []
          \<and> length (fst (FindElements internalPost url_Parse s using val))
               = length (value_Array (getValue wdaResp))
          \<and> (\<forall>i < length (value_Array (getValue wdaResp)).
                prefix (sessionURL s)
                  (urlJoin (sessionURL s) [''element'',
                     value_String (value_Get ''ELEMENT'' (value_Array (getValue wdaResp) ! i))])
                \<and> elementURL (fst (FindElements internalPost url_Parse s using val) ! i)
                  = (case url_Parse (urlJoin (sessionURL s) [''element'',
                       value_String (value_Get ''ELEMENT'' (value_Array (getValue wdaResp) ! i))])
                     of Inl _ \<Rightarrow> None | Inr u \<Rightarrow> Some u)))
       \<and> (value_Array (getValue wdaResp) = [] \<longrightarrow>
            FindElements internalPost url_Parse s using val = ([], Some ErrNoSuchElement))"
  using assms
  by (auto simp: FindElements_def set_field_def newWdaBody_def Let_def prefix_urlJoin)

theorem FindElements_handles_witness:
  "FindElements (\<lambda>actionName url body. Inr sample_elements_response) sample_url_Parse
       sample_session ''class name'' ''XCUIElementTypeButton''
     = ([\<lparr>elementURL = Some ''http://localhost:8100/session/8BF16568/element/E1''\<rparr>,
         \<lparr>elementURL = Some ''http://localhost:8100/session/8BF16568/element/E2''\<rparr>], None)
   \<and> prefix (sessionURL sample_session) ''http://localhost:8100/session/8BF16568/element/E1''
   \<and> prefix (sessionURL sample_session) ''http://localhost:8100/session/8BF16568/element/E2''
   \<and> FindElements (\<lambda>actionName url body. Inr sample_empty_response) sample_url_Parse
       sample_session ''class name'' ''XCUIElementTypeButton'' = ([], Some ErrNoSuchElement)"
  using FindElements_handles[of "\<lambda>actionName url body. Inr sample_elements_response"
      sample_session "''class name''" "''XCUIElementTypeButton''" sample_elements_response
      sample_url_Parse]
    FindElements_handles[of "\<lambda>actionName url body. Inr sample_empty_response"
      sample_session "''class name''" "''XCUIElementTypeButton''" sample_empty_response
      sample_url_Parse]
  by (simp add: FindElements_def sample_elements_response_def sample_empty_response_def
      sample_session_def sample_url_Parse_def getValue_def value_Get_def urlJoin_def)

text \<open>
  C3. \<open>AppLaunch\<close> without options behaves as \<open>AppLaunch\<close> with the one option that sets
  \<open>shouldWaitForQuiescence\<close> to true and nothing else: for every bundle id both send the
  body \<open>{bundleId, shouldWaitForQuiescence: true}\<close> to the same URL, whatever the
  transport is.
\<close>

theorem AppLaunch_default_option:
  "AppLaunch internalPost s bundleId []
     = AppLaunch internalPost s bundleId [SetShouldWaitForQuiescence True NewWDAAppLaunchOption]
   \<and> AppLaunch internalPost s bundleId []
     = (case internalPost ''AppLaunch'' (urlJoin (sessionURL s) [''/wda/apps/launch''])
               [''bundleId'' \<mapsto> StringValue bundleId,
                ''shouldWaitForQuiescence'' \<mapsto> BoolValue True] of
          Inl err \<Rightarrow> Some err | Inr _ \<Rightarrow> None)
   \<and> SetShouldWaitForQuiescence True NewWDAAppLaunchOption
     = [''shouldWaitForQuiescence'' \<mapsto> BoolValue True]"
  by (simp add: AppLaunch_def SetShouldWaitForQuiescence_def NewWDAAppLaunchOption_def
      setAppLaunchOption_def setBundleID_def set_field_def newWdaBody_def)

text \<open>
  C4, as stated, fails: a successful \<open>BatteryInfo\<close> may return a state that is none of
  the three defined codes. At the response \<open>{"value":{"level":0.5,"state":7}}\<close> it
  returns no error and the state 7.
\<close>

theorem BatteryInfo_State_7:
  "snd (BatteryInfo (\<lambda>actionName url. Inr sample_battery_response)
          sample_unmarshal_WDABatteryInfo sample_session) = None
   \<and> State (fst (BatteryInfo (\<lambda>actionName url. Inr sample_battery_response)
          sample_unmarshal_WDABatteryInfo sample_session)) = 7
   \<and> State (fst (BatteryInfo (\<lambda>actionName url. Inr sample_battery_response)
          sample_unmarshal_WDABatteryInfo sample_session))
       \<notin> {WDABatteryUnplugged, WDABatteryCharging, WDABatteryFull}"
  by (simp add: BatteryInfo_def sample_battery_response_def sample_unmarshal_WDABatteryInfo_def
      getValue_def zero_WDABatteryInfo_def WDABatteryUnplugged_def WDABatteryCharging_def
      WDABatteryFull_def)

text \<open>
  C4, amended. \<open>BatteryInfo\<close> does not validate the state: when the transport call
  succeeds, the returned \<open>Level\<close> and \<open>State\<close> are whatever \<open>json.Unmarshal\<close> stored
  from the text of the value, and the returned error is the decoder's. The rendering
  of the codes 1, 2 and 3 is exactly the documented phrase of each, and every other
  value renders as \<open>UNKNOWN\<close>.
\<close>

theorem BatteryInfo_State_decoded:
  "(internalGet ''BatteryInfo'' (urlJoin (sessionURL s) [''/wda/batteryInfo'']) = Inr wdaResp
      \<and> unmarshal (value_String (getValue wdaResp)) (0, 0) = ((lvl, st), err)
    \<longrightarrow> BatteryInfo internalGet unmarshal s
          = (\<lparr>Level = lvl, State = st, bi_string = value_String (getValue wdaResp)\<rparr>, err))
   \<and> WDABatteryUnplugged = 1 \<and> WDABatteryCharging = 2 \<and> WDABatteryFull = 3
   \<and> WDABatteryState_String 1 = ''On battery, discharging''
   \<and> WDABatteryState_String 2 = ''Plugged in, less than 100%''
   \<and> WDABatteryState_String 3 = ''Plugged in, at 100%''
   \<and> (v \<notin> {1, 2, 3} \<longrightarrow> WDABatteryState_String v = ''UNKNOWN'')"
  by (simp add: BatteryInfo_def zero_WDABatteryInfo_def WDABatteryState_String_def
      WDABatteryUnplugged_def WDABatteryCharging_def WDABatteryFull_def)

theorem BatteryInfo_State_decoded_witness:
  "BatteryInfo (\<lambda>actionName url. Inr sample_battery_response)
       sample_unmarshal_WDABatteryInfo sample_session
     = (\<lparr>Level = 1 / 2, State = 7, bi_string = sample_battery_text\<rparr>, None)
   \<and> (7::int) \<notin> {1, 2, 3} \<and> WDABatteryState_String 7 = ''UNKNOWN''"
  using BatteryInfo_State_decoded[of "\<lambda>actionName url. Inr sample_battery_response"
      sample_session sample_battery_response sample_unmarshal_WDABatteryInfo "1 / 2" 7 None 7]
  by (simp add: sample_battery_response_def sample_unmarshal_WDABatteryInfo_def getValue_def)

text \<open>
  C5, as stated, fails: the raw string that is kept is what \<open>String()\<close> answers for the
  value, which is not the raw JSON text of a value that is a JSON string. At the
  response \<open>{"value":"oops"}\<close> \<open>BatteryInfo\<close> returns a decode error and a struct whose
  raw string is \<open>oops\<close>, whereas the raw JSON text of the value is \<open>"oops"\<close>.
\<close>

theorem BatteryInfo_raw_string_unquoted:
  \<open>snd (BatteryInfo (\<lambda>actionName url. Inr sample_string_response) unmarshal_error
          sample_session) = Some (DecodeError ''oops'')
   \<and> bi_string (fst (BatteryInfo (\<lambda>actionName url. Inr sample_string_response)
          unmarshal_error sample_session)) = ''oops''
   \<and> value_Raw (getValue sample_string_response) = ''"oops"''
   \<and> bi_string (fst (BatteryInfo (\<lambda>actionName url. Inr sample_string_response)
          unmarshal_error sample_session)) \<noteq> value_Raw (getValue sample_string_response)\<close>
  by (simp add: BatteryInfo_def sample_string_response_def unmarshal_error_def getValue_def
      zero_WDABatteryInfo_def)

text \<open>
  C5, amended. For each of \<open>GetActiveSession\<close>, \<open>DeviceInfo\<close>, \<open>BatteryInfo\<close>,
  \<open>WindowSize\<close> and \<open>Screen\<close>: when the transport call succeeds, the raw string of the
  returned struct is what \<open>String()\<close> answers for the response's value, whatever
  \<open>json.Unmarshal\<close> stores and whether or not it returns an error. It is the raw JSON
  text of the value whenever \<open>String()\<close> answers that text, as it does for an object.
\<close>

theorem raw_string_retained:
  "(internalGet ''GetActiveSession'' (urlJoin (sessionURL s) [[]]) = Inr r1 \<longrightarrow>
      si_string (fst (GetActiveSession internalGet u1 s)) = value_String (getValue r1)
      \<and> (value_String (getValue r1) = value_Raw (getValue r1) \<longrightarrow>
          si_string (fst (GetActiveSession internalGet u1 s)) = value_Raw (getValue r1)))
   \<and> (internalGet ''DeviceInfo'' (urlJoin (sessionURL s) [''/wda/device/info'']) = Inr r2 \<longrightarrow>
      di_string (fst (DeviceInfo internalGet u2 s)) = value_String (getValue r2)
      \<and> (value_String (getValue r2) = value_Raw (getValue r2) \<longrightarrow>
          di_string (fst (DeviceInfo internalGet u2 s)) = value_Raw (getValue r2)))
   \<and> (internalGet ''BatteryInfo'' (urlJoin (sessionURL s) [''/wda/batteryInfo'']) = Inr r3 \<longrightarrow>
      bi_string (fst (BatteryInfo internalGet u3 s)) = value_String (getValue r3)
      \<and> (value_String (getValue r3) = value_Raw (getValue r3) \<longrightarrow>
          bi_string (fst (BatteryInfo internalGet u3 s)) = value_Raw (getValue r3)))
   \<and> (internalGet ''WindowSize'' (urlJoin (sessionURL s) [''/window/size'']) = Inr r4 \<longrightarrow>
      size_string (fst (WindowSize internalGet u4 s)) = value_String (getValue r4)
      \<and> (value_String (getValue r4) = value_Raw (getValue r4) \<longrightarrow>
          size_string (fst (WindowSize internalGet u4 s)) = value_Raw (getValue r4)))
   \<and> (internalGet ''Screen'' (urlJoin (sessionURL s) [''/wda/screen'']) = Inr r5 \<longrightarrow>
      screen_string (fst (Screen internalGet u5 s)) = value_String (getValue r5)
      \<and> (value_String (getValue r5) = value_Raw (getValue r5) \<longrightarrow>
          screen_string (fst (Screen internalGet u5 s)) = value_Raw (getValue r5)))"
  by (simp add: GetActiveSession_def DeviceInfo_def BatteryInfo_def WindowSize_def Screen_def
      Let_def split_beta)

theorem raw_string_retained_witness:
  "value_String (getValue sample_mismatch_response) = value_Raw (getValue sample_mismatch_response)
   \<and> value_Raw (getValue sample_mismatch_response) = sample_mismatch_text
   \<and> GetActiveSession (\<lambda>actionName url. Inr sample_mismatch_response) unmarshal_error
       sample_session
     = (zero_WDASessionInfo\<lparr>si_string := sample_mismatch_text\<rparr>,
        Some (DecodeError sample_mismatch_text))
   \<and> di_string (fst (DeviceInfo (\<lambda>actionName url. Inr sample_mismatch_response)
       unmarshal_error sample_session)) = sample_mismatch_text
   \<and> BatteryInfo (\<lambda>actionName url. Inr sample_mismatch_response)
       sample_unmarshal_WDABatteryInfo sample_session
     = (\<lparr>Level = 0, State = 0, bi_string = sample_mismatch_text\<rparr>,
        Some (DecodeError sample_mismatch_text))
   \<and> size_string (fst (WindowSize (\<lambda>actionName url. Inr sample_mismatch_response)
       unmarshal_error sample_session)) = sample_mismatch_text
   \<and> screen_string (fst (Screen (\<lambda>actionName url. Inr sample_mismatch_response)
       unmarshal_error sample_session)) = sample_mismatch_text"
  using raw_string_retained[of "\<lambda>actionName url. Inr sample_mismatch_response" sample_session
      sample_mismatch_response unmarshal_error
      sample_mismatch_response unmarshal_error
      sample_mismatch_response sample_unmarshal_WDABatteryInfo
      sample_mismatch_response unmarshal_error
      sample_mismatch_response unmarshal_error]
  by (simp add: GetActiveSession_def BatteryInfo_def sample_mismatch_response_def getValue_def
      sample_unmarshal_WDABatteryInfo_def sample_battery_text_def sample_mismatch_text_def
      zero_WDABatteryInfo_def unmarshal_error_def)

text \<open>
  C6. For every content, \<open>SetPasteboardForPlaintext\<close> posts the body \<open>{contentType:
  "plaintext", content}\<close> whose \<open>content\<close> is the standard base64 encoding of the
  content, and decoding that field with the standard encoding gives the content back.
  For \<open>hello\<close> the field is \<open>aGVsbG8=\<close>.
\<close>

theorem SetPasteboardForPlaintext_base64:
  "SetPasteboardForPlaintext internalPost s content
     = (case internalPost ''SetPasteboard'' (urlJoin (sessionURL s) [''/wda/setPasteboard''])
               [''contentType'' \<mapsto> StringValue ''plaintext'',
                ''content'' \<mapsto> StringValue (EncodeToString StdEncoding content)] of
          Inl err \<Rightarrow> Some err | Inr _ \<Rightarrow> None)
   \<and> DecodeString StdEncoding (EncodeToString StdEncoding content) = Some content
   \<and> EncodeToString StdEncoding ''hello'' = ''aGVsbG8=''
   \<and> DecodeString StdEncoding ''aGVsbG8='' = Some ''hello''"
proof -
  have "EncodeToString StdEncoding ''hello'' = ''aGVsbG8=''"
    by (simp add: EncodeToString_def StdEncoding_def encodeStd_def sextet_def)
  moreover from this DecodeString_Std[of "''hello''"]
  have "DecodeString StdEncoding ''aGVsbG8='' = Some ''hello''" by simp
  ultimately show ?thesis
    by (simp add: SetPasteboardForPlaintext_def SetPasteboard_def WDAContentTypePlaintext_def
        set_field_def newWdaBody_def DecodeString_Std)
qed

text \<open>
  C7. \<open>Scale\<close> and \<open>StatusBarSize\<close> return the field \<open>Scale\<close>, respectively
  \<open>StatusBarSize\<close>, of what \<open>Screen\<close> returns, together with the error of \<open>Screen\<close>
  itself, on every outcome.
\<close>

theorem Scale_StatusBarSize_project:
  "Scale_method internalGet unmarshal s
     = (Scale (fst (Screen internalGet unmarshal s)), snd (Screen internalGet unmarshal s))
   \<and> StatusBarSize_method internalGet unmarshal s
     = (StatusBarSize (fst (Screen internalGet unmarshal s)),
        snd (Screen internalGet unmarshal s))"
  by (simp add: Scale_method_def StatusBarSize_method_def split_beta)

text \<open>
  C8. \<open>SetPasteboardForImage\<close> returns an \<open>IOError\<close> when the file cannot be opened and
  when it cannot be read; when it can, it returns what \<open>SetPasteboard\<close> returns for the
  standard base64 encoding of its bytes. On every path the descriptors that are open
  when it returns are those that were open when it was called.
\<close>

theorem SetPasteboardForImage_closes:
  "(files st filename = None \<longrightarrow>
      fst (SetPasteboardForImage internalPost s filename st)
        = Some (IOError (''open '' @ filename)))
   \<and> (files st filename = Some Unreadable \<longrightarrow>
      fst (SetPasteboardForImage internalPost s filename st) = Some (IOError ''read''))
   \<and> (files st filename = Some (Readable bytes) \<longrightarrow>
      fst (SetPasteboardForImage internalPost s filename st)
        = SetPasteboard internalPost s WDAContentTypeImage (EncodeToString StdEncoding bytes))
   \<and> openFds (snd (SetPasteboardForImage internalPost s filename st)) = openFds st"
  by (simp add: SetPasteboardForImage_def os_Open_def ReadAll_def Close_def
      split: option.split fileNode.split)

theorem SetPasteboardForImage_closes_witness:
  "SetPasteboardForImage (\<lambda>actionName url body. Inr sample_empty_response) sample_session
       ''/tmp/missing.png'' sample_os
     = (Some (IOError ''open /tmp/missing.png''), sample_os)
   \<and> SetPasteboardForImage (\<lambda>actionName url body. Inr sample_empty_response) sample_session
       ''/tmp'' sample_os
     = (Some (IOError ''read''), sample_os\<lparr>nextFd := 4\<rparr>)
   \<and> SetPasteboardForImage (\<lambda>actionName url body. Inr sample_empty_response) sample_session
       ''/tmp/icon.png'' sample_os
     = (None, sample_os\<lparr>nextFd := 4\<rparr>)"
  using SetPasteboardForImage_closes[of sample_os "''/tmp/missing.png''"
      "\<lambda>actionName url body. Inr sample_empty_response" sample_session]
    SetPasteboardForImage_closes[of sample_os "''/tmp''"
      "\<lambda>actionName url body. Inr sample_empty_response" sample_session]
    SetPasteboardForImage_closes[of sample_os "''/tmp/icon.png''"
      "\<lambda>actionName url body. Inr sample_empty_response" sample_session "''hello''"]
  by (simp add: SetPasteboardForImage_def os_Open_def ReadAll_def Close_def sample_os_def
      SetPasteboard_def)

text \<open>
  C9. \<open>SetPasteboardForUrl\<close> posts the encoding of its input in the URL alphabet, whereas
  \<open>SetPasteboardForPlaintext\<close> posts the encoding in the standard alphabet (as does
  \<open>SetPasteboardForImage\<close>, by C8). Whenever the standard encoding of an input contains
  \<open>+\<close> or \<open>/\<close>, the content that \<open>SetPasteboardForUrl\<close> posts differs from it.
\<close>

theorem SetPasteboardForUrl_alphabet:
  "SetPasteboardForUrl internalPost s url
     = (case internalPost ''SetPasteboard'' (urlJoin (sessionURL s) [''/wda/setPasteboard''])
               [''contentType'' \<mapsto> StringValue ''url'',
                ''content'' \<mapsto> StringValue (EncodeToString URLEncoding url)] of
          Inl err \<Rightarrow> Some err | Inr _ \<Rightarrow> None)
   \<and> encode URLEncoding = encodeURL \<and> encode StdEncoding = encodeStd
   \<and> SetPasteboardForPlaintext internalPost s url
     = SetPasteboard internalPost s WDAContentTypePlaintext (EncodeToString StdEncoding url)
   \<and> (CHR ''+'' \<in> set (EncodeToString StdEncoding url)
        \<or> CHR ''/'' \<in> set (EncodeToString StdEncoding url)
      \<longrightarrow> EncodeToString URLEncoding url \<noteq> EncodeToString StdEncoding url)"
  using URL_no_plus_slash[of url]
  by (auto simp: SetPasteboardForUrl_def SetPasteboardForPlaintext_def SetPasteboard_def
      WDAContentTypeUrl_def set_field_def newWdaBody_def URLEncoding_def StdEncoding_def)

theorem SetPasteboardForUrl_alphabet_witness:
  "CHR ''+'' \<in> set (EncodeToString StdEncoding ''>>>???'')
   \<and> EncodeToString StdEncoding ''>>>???'' = ''Pj4+Pz8/''
   \<and> EncodeToString URLEncoding ''>>>???'' = ''Pj4-Pz8_''
   \<and> EncodeToString URLEncoding ''>>>???'' \<noteq> EncodeToString StdEncoding ''>>>???''"
proof -
  have 1: "EncodeToString StdEncoding ''>>>???'' = ''Pj4+Pz8/''"
    by (simp add: EncodeToString_def StdEncoding_def encodeStd_def sextet_def)
  have 2: "EncodeToString URLEncoding ''>>>???'' = ''Pj4-Pz8_''"
    by (simp add: EncodeToString_def URLEncoding_def encodeURL_def sextet_def)
  from SetPasteboardForUrl_alphabet[of "\<lambda>actionName url body. Inr sample_empty_response"
      sample_session "''>>>???''"] 1 2
  show ?thesis by simp
qed

text \<open>
  C10. When the transport call of \<open>AppState\<close> fails, the result is the state \<open>-1\<close>
  together with the transport's error; \<open>-1\<close> is none of the three defined codes 1, 2
  and 4 and renders as \<open>UNKNOWN\<close>. When the transport call succeeds, the result is the
  integer reading of the response's value, whatever it is, and no error.
\<close>

theorem AppState_sentinel:
  "(internalPost ''AppState'' (urlJoin (sessionURL s) [''/wda/apps/state''])
        (setBundleID bundleId newWdaBody) = Inl err
      \<longrightarrow> AppState internalPost s bundleId = (- 1, Some err))
   \<and> - 1 \<notin> {WDAAppNotRunning, WDAAppRunningBack, WDAAppRunningFront}
   \<and> {WDAAppNotRunning, WDAAppRunningBack, WDAAppRunningFront} = {1, 2, 4}
   \<and> WDAAppRunState_String (- 1) = ''UNKNOWN''
   \<and> (internalPost ''AppState'' (urlJoin (sessionURL s) [''/wda/apps/state''])
        (setBundleID bundleId newWdaBody) = Inr wdaResp
      \<longrightarrow> AppState internalPost s bundleId = (value_Int (getValue wdaResp), None))"
  by (simp add: AppState_def WDAAppRunState_String_def WDAAppRunState_codes)

theorem AppState_sentinel_witness:
  "AppState (\<lambda>actionName url body. Inl (TransportError ''connection refused'')) sample_session
       ''com.apple.Preferences'' = (- 1, Some (TransportError ''connection refused''))
   \<and> AppState (\<lambda>actionName url body. Inr \<lparr>respValue = WdaValue ''9'' ''9'' 9 [] [], respErrMsg = []\<rparr>)
       sample_session ''com.apple.Preferences'' = (9, None)"
  using AppState_sentinel[of "\<lambda>actionName url body. Inl (TransportError ''connection refused'')"
      sample_session "''com.apple.Preferences''" "TransportError ''connection refused''"]
    AppState_sentinel[of
      "\<lambda>actionName url body. Inr \<lparr>respValue = WdaValue ''9'' ''9'' 9 [] [], respErrMsg = []\<rparr>"
      sample_session "''com.apple.Preferences''" _
      "\<lparr>respValue = WdaValue ''9'' ''9'' 9 [] [], respErrMsg = []\<rparr>"]
  by (simp add: getValue_def)

end
